theory Spec2Isabelle
  imports Main
begin

section \<open>JavaScript values\<close>

text \<open>
  A JavaScript string is a sequence of UTF-16 code units; a code unit is modelled by its
  number. \<open>str\<close> turns an ASCII literal of the source into that representation.
\<close>

type_synonym jsstring = "nat list"

definition str :: "string \<Rightarrow> jsstring" where
  "str s = map of_char s"

text \<open>
  Request bodies are what \<open>express.json()\<close> parses (an object, \<open>{}\<close> when there is
  none).  The value of a field is \<open>undefined\<close> (field absent) or a JSON scalar: null, a
  boolean, a number or a string.  Numbers are the integers of size at most 2^53, which
  a JavaScript number holds exactly and prints as plain decimal digits.  Arrays and objects as field values
  are outside the model.
\<close>

datatype jsval =
    JUndefined
  | JNull
  | JBool bool
  | JNum int
  | JStr jsstring

datatype error = TypeError

text \<open>The test done by \<open>!v\<close>, \<open>v || d\<close> and \<open>if (v)\<close>.\<close>

fun truthy :: "jsval \<Rightarrow> bool" where
  "truthy JUndefined = False"
| "truthy JNull = False"
| "truthy (JBool b) = b"
| "truthy (JNum n) = (n \<noteq> 0)"
| "truthy (JStr s) = (s \<noteq> [])"

fun dec_nat :: "nat \<Rightarrow> jsstring" where
  "dec_nat n = (if n < 10 then [48 + n] else dec_nat (n div 10) @ [48 + n mod 10])"

declare dec_nat.simps [simp del]

definition dec_int :: "int \<Rightarrow> jsstring" where
  "dec_int i = (if i < 0 then 45 # dec_nat (nat (- i)) else dec_nat (nat i))"

text \<open>
  String conversion of a scalar, as done by \<open>v.toString()\<close> on a truthy value, by a
  template literal and by a property key.
\<close>

fun js_toString :: "jsval \<Rightarrow> jsstring" where
  "js_toString JUndefined = str ''undefined''"
| "js_toString JNull = str ''null''"
| "js_toString (JBool b) = (if b then str ''true'' else str ''false'')"
| "js_toString (JNum n) = dec_int n"
| "js_toString (JStr s) = s"

section \<open>Port allocation (the scan in POST /connect)\<close>

text \<open>
  \<open>isPortFree\<close> binds a throwaway listener; its answer for a port is an input of the
  model (\<open>free\<close>).  The scan is the \<open>for\<close> loop with \<open>break\<close> over
  \<open>Array.from({ length: 51 }, (_, i) => defaultLocalPort + i)\<close>, started with
  \<open>chosenPort = defaultLocalPort\<close>.
\<close>

definition range51 :: "nat \<Rightarrow> nat list" where
  "range51 defaultLocalPort = map (\<lambda>i. defaultLocalPort + i) [0..<51]"

fun scan :: "(nat \<Rightarrow> bool) \<Rightarrow> nat list \<Rightarrow> nat \<Rightarrow> nat" where
  "scan free [] chosenPort = chosenPort"
| "scan free (p # ps) chosenPort = (if free p then p else scan free ps chosenPort)"

definition chosenPort :: "(nat \<Rightarrow> bool) \<Rightarrow> nat \<Rightarrow> nat" where
  "chosenPort free defaultLocalPort = scan free (range51 defaultLocalPort) defaultLocalPort"

section \<open>Tunnel slot and status broadcaster\<close>

text \<open>
  The handle returned by \<open>spawn\<close>; \<open>pid\<close> is undefined when the spawn failed.
\<close>

record child =
  pid :: "nat option"

datatype conn_status = connected | disconnected

text \<open>
  The object built by \<open>getCurrentStatus\<close>, with its keys \<open>status\<close>, \<open>env\<close>, \<open>pid\<close>
  and \<open>localPort\<close>.
\<close>

record snapshot =
  snap_status :: conn_status
  snap_env :: jsval
  snap_pid :: "nat option"
  snap_localPort :: "nat option"

text \<open>
  The module variables \<open>tunnelProcess\<close>, \<open>connectedEnv\<close> (\<open>JNull\<close> for null),
  \<open>tunnelLocalPort\<close> and the set \<open>sseClients\<close> (a JavaScript Set iterates in insertion
  order; an observer is named by a number).
\<close>

record server_state =
  tunnelProcess :: "child option"
  connectedEnv :: jsval
  tunnelLocalPort :: "nat option"
  sseClients :: "nat list"

datatype response =
    Failure nat jsstring
  | ConnectSuccess jsstring nat jsstring
  | DisconnectSuccess jsstring
  | QuerySuccess "jsval list list"

datatype delivery = Wrote nat | WriteThrew nat

text \<open>What a handler does to the outside, in order.\<close>

datatype effect =
    Kill child
  | Broadcast snapshot "delivery list"
  | WriteStatus nat snapshot
  | Respond response
  | Exec jsstring
  | Spawn jsstring
  | Probe jsstring jsval
  | CreateConnection jsstring jsval jsval jsval jsval
  | Execute jsstring
  | End

definition getCurrentStatus :: "server_state \<Rightarrow> snapshot" where
  "getCurrentStatus s =
     \<lparr> snap_status = (if tunnelProcess s \<noteq> None then connected else disconnected),
       snap_env = connectedEnv s,
       snap_pid = (case tunnelProcess s of
                     None \<Rightarrow> None
                   | Some p \<Rightarrow> (case pid p of
                                 None \<Rightarrow> None
                               | Some n \<Rightarrow> if n = 0 then None else Some n)),
       snap_localPort = tunnelLocalPort s \<rparr>"

text \<open>
  The loop of \<open>broadcastStatus\<close>: \<open>res.write\<close> inside \<open>try\<close>, with an empty
  \<open>catch\<close>.  Whether a write to an observer throws is an input (\<open>wfail\<close>).
\<close>

fun write_all :: "(nat \<Rightarrow> bool) \<Rightarrow> nat list \<Rightarrow> delivery list" where
  "write_all wfail [] = []"
| "write_all wfail (c # cs) =
     (if wfail c then WriteThrew c else Wrote c) # write_all wfail cs"

definition broadcastStatus :: "(nat \<Rightarrow> bool) \<Rightarrow> server_state \<Rightarrow> server_state \<times> effect" where
  "broadcastStatus wfail s =
     (s, Broadcast (getCurrentStatus s) (write_all wfail (sseClients s)))"

text \<open>What a broadcast did at each observer.\<close>

fun deliveries :: "effect \<Rightarrow> delivery list" where
  "deliveries (Broadcast p ds) = ds"
| "deliveries x = []"

text \<open>
  GET /events: the initial status is written, then the observer is added; the \<open>close\<close>
  handler of the request deletes it.
\<close>

definition events_request :: "nat \<Rightarrow> server_state \<Rightarrow> server_state \<times> effect" where
  "events_request c s =
     (s\<lparr>sseClients := (if c \<in> set (sseClients s) then sseClients s else sseClients s @ [c])\<rparr>,
      WriteStatus c (getCurrentStatus s))"

definition events_close :: "nat \<Rightarrow> server_state \<Rightarrow> server_state" where
  "events_close c s = s\<lparr>sseClients := removeAll c (sseClients s)\<rparr>"

section \<open>Tunnel lifecycle: POST /connect\<close>

record profile =
  defaultLocalPort :: nat
  remoteHost :: jsstring

definition envTunnel :: "(jsstring \<times> profile) list" where
  "envTunnel =
     [(str ''sit'', \<lparr>defaultLocalPort = 4085, remoteHost = str ''cdx-sit2-crs-tidb.int-np.cardx.co.th''\<rparr>),
      (str ''uat1'', \<lparr>defaultLocalPort = 4023, remoteHost = str ''cdx-uat-crs-tidb.int-np.cardx.co.th''\<rparr>),
      (str ''uat2'', \<lparr>defaultLocalPort = 4022, remoteHost = str ''cdx-uat2-crs-tidb.int-np.cardx.co.th''\<rparr>)]"

text \<open>
  \<open>envTunnel\<close> is an object literal, so \<open>envTunnel[env]\<close> also finds the properties
  inherited from \<open>Object.prototype\<close>; all of them are truthy.
\<close>

definition object_prototype_keys :: "jsstring list" where
  "object_prototype_keys =
     [str ''constructor'', str ''__defineGetter__'', str ''__defineSetter__'',
      str ''hasOwnProperty'', str ''__lookupGetter__'', str ''__lookupSetter__'',
      str ''isPrototypeOf'', str ''propertyIsEnumerable'', str ''toString'',
      str ''valueOf'', str ''__proto__'', str ''toLocaleString'']"

datatype lookup = Own profile | Inherited | Absent

definition envTunnel_get :: "jsstring \<Rightarrow> lookup" where
  "envTunnel_get k =
     (case map_of envTunnel k of
        Some p \<Rightarrow> Own p
      | None \<Rightarrow> if k \<in> set object_prototype_keys then Inherited else Absent)"

definition loginCommand :: jsstring where
  "loginCommand = str ''tsh login --proxy=cardx.teleport.sh:443 --auth=local --user=\"Manuchet@cardx.co.th\"''"

definition statusCommand :: jsstring where
  "statusCommand = str ''tsh status''"

definition logoutCommand :: jsstring where
  "logoutCommand = str ''tsh logout''"

text \<open>The body of a connect request: the value of its \<open>env\<close> field.\<close>

record connect_body =
  body_env :: jsval

text \<open>
  How the synchronous part of the handler ends: with a response, or with the login
  command started (carrying \<open>env\<close> and what \<open>envTunnel[env]\<close> found).
\<close>

datatype connect_next = Finished | Login jsval lookup

text \<open>
  The handler up to \<open>exec(loginCommand, ...)\<close>.  The existing tunnel is killed first;
  the check \<open>!env || !envTunnel[env]\<close> comes after it.
\<close>

definition connect_request ::
  "(nat \<Rightarrow> bool) \<Rightarrow> connect_body \<Rightarrow> server_state \<Rightarrow> server_state \<times> effect list \<times> connect_next" where
  "connect_request wfail body s =
     (let (s1, fx1) =
            (case tunnelProcess s of
               Some p \<Rightarrow>
                 (let (s', b) = broadcastStatus wfail
                                  (s\<lparr>tunnelProcess := None, connectedEnv := JNull, tunnelLocalPort := None\<rparr>)
                  in (s', [Kill p, b]))
             | None \<Rightarrow> (s, []));
          e = body_env body
      in if \<not> truthy e \<or> envTunnel_get (js_toString e) = Absent
         then (s1, fx1 @ [Respond (Failure 400 (str ''Invalid or missing environment specified.''))],
               Finished)
         else (s1, fx1 @ [Exec loginCommand], Login e (envTunnel_get (js_toString e))))"

text \<open>The callbacks of the two \<open>exec\<close> calls; \<open>True\<close> means the attempt goes on.\<close>

definition login_callback :: "bool \<Rightarrow> jsstring \<Rightarrow> effect list \<times> bool" where
  "login_callback loginError loginStderr =
     (if loginError
      then ([Respond (Failure 500
               (str ''Login failed. Please check credentials and Teleport setup. '' @ [10, 10]
                @ str ''Error: '' @ loginStderr))], False)
      else ([Exec statusCommand], True))"

definition status_callback :: "bool \<Rightarrow> jsstring \<Rightarrow> effect list \<times> bool" where
  "status_callback statusError statusStderr =
     (if statusError
      then ([Respond (Failure 500 (str ''Failed to get TSH status: '' @ statusStderr))], False)
      else ([], True))"

text \<open>
  What one connect attempt keeps in its closure: \<open>env\<close>, \<open>chosenPort\<close>,
  \<open>statusStdout\<close>, and the \<open>headersSent\<close> flag of its response object.
\<close>

record attempt =
  a_env :: jsval
  a_chosenPort :: nat
  a_statusStdout :: jsstring
  headersSent :: bool

definition sshTunnelCommand :: "nat \<Rightarrow> jsstring \<Rightarrow> jsstring" where
  "sshTunnelCommand p host =
     str ''tsh ssh -N -L '' @ dec_nat p @ str '':'' @ host
     @ str '':4000 devops@cdx-sit-nonprod-pci-acn-bastion-host''"

text \<open>
  The asynchronous block after a successful \<open>tsh status\<close>, for a configured profile:
  the port scan, \<open>tunnelLocalPort = chosenPort\<close>, a broadcast, then \<open>spawn\<close>, whose
  handle (\<open>newproc\<close>) is stored in \<open>tunnelProcess\<close>.
\<close>

definition tunnel_launch ::
  "(nat \<Rightarrow> bool) \<Rightarrow> (nat \<Rightarrow> bool) \<Rightarrow> jsval \<Rightarrow> profile \<Rightarrow> jsstring \<Rightarrow> child \<Rightarrow> server_state
     \<Rightarrow> server_state \<times> attempt \<times> effect list" where
  "tunnel_launch wfail free e prof statusStdout newproc s =
     (let p = chosenPort free (defaultLocalPort prof);
          (s1, b) = broadcastStatus wfail (s\<lparr>tunnelLocalPort := Some p\<rparr>);
          s2 = s1\<lparr>tunnelProcess := Some newproc\<rparr>
      in (s2,
          \<lparr>a_env = e, a_chosenPort = p, a_statusStdout = statusStdout, headersSent = False\<rparr>,
          [b, Spawn (sshTunnelCommand p (remoteHost prof))]))"

text \<open>The \<open>error\<close> handler of the subprocess.\<close>

definition on_error ::
  "(nat \<Rightarrow> bool) \<Rightarrow> server_state \<times> attempt \<Rightarrow> server_state \<times> attempt \<times> effect list" where
  "on_error wfail sa =
     (let (s, a) = sa;
          (a1, fx1) = (if \<not> headersSent a
                       then (a\<lparr>headersSent := True\<rparr>,
                             [Respond (Failure 500 (str ''Failed to spawn SSH tunnel process.''))])
                       else (a, []));
          (s1, b) = broadcastStatus wfail
                      (s\<lparr>tunnelProcess := None, connectedEnv := JNull, tunnelLocalPort := None\<rparr>)
      in (s1, a1, fx1 @ [b]))"

text \<open>
  The \<open>data\<close> handler of the subprocess's error stream.  The teardown is inside
  \<open>if (!res.headersSent)\<close>; \<open>tunnelProcess.kill()\<close> there throws when the variable
  is null.
\<close>

definition on_stderr ::
  "(nat \<Rightarrow> bool) \<Rightarrow> jsstring \<Rightarrow> server_state \<times> attempt
     \<Rightarrow> error + server_state \<times> attempt \<times> effect list" where
  "on_stderr wfail errorMessage sa =
     (let (s, a) = sa
      in if \<not> headersSent a
         then (case tunnelProcess s of
                 None \<Rightarrow> Inl TypeError
               | Some p \<Rightarrow>
                   (let (s1, b) = broadcastStatus wfail
                                    (s\<lparr>tunnelProcess := None, connectedEnv := JNull,
                                       tunnelLocalPort := None\<rparr>)
                    in Inr (s1, a\<lparr>headersSent := True\<rparr>,
                            [Kill p,
                             Respond (Failure 500 (str ''Failed to establish SSH tunnel: '' @ errorMessage)),
                             b])))
         else (let (s1, b) = broadcastStatus wfail s in Inr (s1, a, [b])))"

text \<open>The \<open>close\<close> handler of the subprocess.\<close>

definition on_close ::
  "(nat \<Rightarrow> bool) \<Rightarrow> server_state \<times> attempt \<Rightarrow> server_state \<times> attempt \<times> effect list" where
  "on_close wfail sa =
     (let (s, a) = sa;
          (s1, b) = broadcastStatus wfail
                      (s\<lparr>tunnelProcess := None, connectedEnv := JNull, tunnelLocalPort := None\<rparr>)
      in (s1, a, [b]))"

text \<open>
  \<open>env.toUpperCase()\<close>: only a string has the method.  Every string that passes the
  check of the handler is ASCII, where upper-casing moves \<open>a\<close>--\<open>z\<close> to \<open>A\<close>--\<open>Z\<close>.
\<close>

definition upper_cu :: "nat \<Rightarrow> nat" where
  "upper_cu c = (if 97 \<le> c \<and> c \<le> 122 then c - 32 else c)"

fun toUpperCase :: "jsval \<Rightarrow> error + jsstring" where
  "toUpperCase (JStr s) = Inr (map upper_cu s)"
| "toUpperCase v = Inl TypeError"

text \<open>The callback of the 2000 ms \<open>setTimeout\<close>.\<close>

definition on_timer ::
  "(nat \<Rightarrow> bool) \<Rightarrow> server_state \<times> attempt \<Rightarrow> error + server_state \<times> attempt \<times> effect list" where
  "on_timer wfail sa =
     (let (s, a) = sa
      in if \<not> headersSent a
         then (case toUpperCase (a_env a) of
                 Inl e \<Rightarrow> Inl e
               | Inr up \<Rightarrow>
                   (let (s1, b) = broadcastStatus wfail (s\<lparr>connectedEnv := a_env a\<rparr>)
                    in Inr (s1, a\<lparr>headersSent := True\<rparr>,
                            [b,
                             Respond (ConnectSuccess (a_statusStdout a) (a_chosenPort a)
                               (str ''SSH tunnel for '' @ up @ str '' environment initiated on port ''
                                @ dec_nat (a_chosenPort a) @ str ''.''))])))
         else Inr (s, a, []))"

text \<open>
  What can happen to an attempt after the launch, and a run of such events in the order
  the event loop delivers them.  An exception thrown by a callback ends the run.
\<close>

datatype event = SpawnError | StderrData jsstring | Close int | Timer

fun handle :: "(nat \<Rightarrow> bool) \<Rightarrow> event \<Rightarrow> server_state \<times> attempt
     \<Rightarrow> error + server_state \<times> attempt \<times> effect list" where
  "handle wfail SpawnError sa = Inr (on_error wfail sa)"
| "handle wfail (StderrData d) sa = on_stderr wfail d sa"
| "handle wfail (Close code) sa = Inr (on_close wfail sa)"
| "handle wfail Timer sa = on_timer wfail sa"

fun run :: "(nat \<Rightarrow> bool) \<Rightarrow> event list \<Rightarrow> server_state \<times> attempt
     \<Rightarrow> error + server_state \<times> attempt \<times> effect list" where
  "run wfail [] sa = Inr (fst sa, snd sa, [])"
| "run wfail (ev # evs) sa =
     (case handle wfail ev sa of
        Inl e \<Rightarrow> Inl e
      | Inr (s1, a1, fx1) \<Rightarrow>
          (case run wfail evs (s1, a1) of
             Inl e \<Rightarrow> Inl e
           | Inr (s2, a2, fx2) \<Rightarrow> Inr (s2, a2, fx1 @ fx2)))"

text \<open>The responses among the effects.\<close>

fun responses :: "effect list \<Rightarrow> response list" where
  "responses [] = []"
| "responses (Respond r # fx) = r # responses fx"
| "responses (x # fx) = responses fx"

fun broadcasts :: "effect list \<Rightarrow> snapshot list" where
  "broadcasts [] = []"
| "broadcasts (Broadcast p ds # fx) = p # broadcasts fx"
| "broadcasts (x # fx) = broadcasts fx"

section \<open>Tunnel lifecycle: POST /disconnect\<close>

text \<open>
  The handler up to \<open>exec(logoutCommand, ...)\<close>: \<open>tunnelProcess\<close> and \<open>connectedEnv\<close>
  are set to null, \<open>tunnelLocalPort\<close> is not assigned.
\<close>

definition disconnect_request ::
  "(nat \<Rightarrow> bool) \<Rightarrow> server_state \<Rightarrow> server_state \<times> effect list" where
  "disconnect_request wfail s =
     (case tunnelProcess s of
        Some p \<Rightarrow>
          (let (s1, b) = broadcastStatus wfail (s\<lparr>tunnelProcess := None, connectedEnv := JNull\<rparr>)
           in (s1, [Kill p, b, Exec logoutCommand]))
      | None \<Rightarrow> (s, [Exec logoutCommand]))"

text \<open>
  The callback of \<open>exec(logoutCommand, ...)\<close>: an error is only logged; the response
  and a broadcast follow in both cases.
\<close>

definition logout_callback ::
  "(nat \<Rightarrow> bool) \<Rightarrow> bool \<Rightarrow> server_state \<Rightarrow> server_state \<times> effect list" where
  "logout_callback wfail logoutError s =
     (let (s1, b) = broadcastStatus wfail s
      in (s1, [Respond (DisconnectSuccess (str ''Tunnel terminated and successfully logged out.'')), b]))"

text \<open>A disconnect call whose logout callback runs with nothing in between.\<close>

definition disconnect ::
  "(nat \<Rightarrow> bool) \<Rightarrow> bool \<Rightarrow> server_state \<Rightarrow> server_state \<times> effect list" where
  "disconnect wfail logoutError s =
     (let (s1, fx1) = disconnect_request wfail s;
          (s2, fx2) = logout_callback wfail logoutError s1
      in (s2, fx1 @ fx2))"

section \<open>SQL safety validator\<close>

text \<open>
  The character classes of the regular expressions (none has the \<open>u\<close> flag): \<open>\s\<close>, which
  is also what \<open>trim\<close> removes, and \<open>\w\<close>, which decides \<open>\b\<close>.  Under the \<open>i\<close> flag a
  letter of a pattern matches exactly its two ASCII forms, since canonicalisation never
  maps a code unit from 128 on to an ASCII one.
\<close>

definition is_ws :: "nat \<Rightarrow> bool" where
  "is_ws c = (c \<in> {9, 10, 11, 12, 13, 32, 160, 5760, 8232, 8233, 8239, 8287, 12288, 65279}
              \<or> (8192 \<le> c \<and> c \<le> 8202))"

definition is_word :: "nat \<Rightarrow> bool" where
  "is_word c = ((48 \<le> c \<and> c \<le> 57) \<or> (65 \<le> c \<and> c \<le> 90) \<or> c = 95 \<or> (97 \<le> c \<and> c \<le> 122))"

definition lower_cu :: "nat \<Rightarrow> nat" where
  "lower_cu c = (if 65 \<le> c \<and> c \<le> 90 then c + 32 else c)"

definition starts :: "jsstring \<Rightarrow> jsstring \<Rightarrow> bool" where
  "starts pre s = (take (length pre) s = pre)"

text \<open>The rest of the text after the first \<open>*/\<close>, if there is one.\<close>

fun find_close :: "jsstring \<Rightarrow> jsstring option" where
  "find_close [] = None"
| "find_close [c] = None"
| "find_close (c # d # cs) = (if c = 42 \<and> d = 47 then Some cs else find_close (d # cs))"

text \<open>
  \<open>query.replace(/\/\*[\s\S]*?\*\//g, '')\<close>: at each position from the left, \<open>/*\<close>
  followed (lazily) by the nearest \<open>*/\<close> is removed and the scan goes on behind it; a
  \<open>/*\<close> that is never closed stays.
\<close>

function strip_block :: "jsstring \<Rightarrow> jsstring" where
  "strip_block [] = []"
| "strip_block (c # cs) =
     (if starts (str ''/*'') (c # cs)
      then (case find_close (drop 1 cs) of
              Some rest \<Rightarrow> strip_block rest
            | None \<Rightarrow> c # strip_block cs)
      else c # strip_block cs)"
  by pat_completeness auto
termination
proof (relation "measure length")
  have fc: "length r < length s" if "find_close s = Some r" for s r
    using that by (induction s rule: find_close.induct) (auto split: if_splits)
  show "wf (measure length)" by simp
  show "(rest, c # cs) \<in> measure length"
    if "starts (str ''/*'') (c # cs)" and "find_close (drop 1 cs) = Some rest" for c cs rest
    using fc [OF that(2)] by simp
  show "(cs, c # cs) \<in> measure length" for c :: nat and cs
    by simp
  show "(cs, c # cs) \<in> measure length" for c :: nat and cs
    by simp
qed

text \<open>\<open>text.replace(/--[^\n\r]*/g, '')\<close>: \<open>--\<close> and everything up to the line end.\<close>

function strip_line :: "jsstring \<Rightarrow> jsstring" where
  "strip_line [] = []"
| "strip_line (c # cs) =
     (if starts (str ''--'') (c # cs)
      then strip_line (dropWhile (\<lambda>x. x \<noteq> 10 \<and> x \<noteq> 13) (drop 1 cs))
      else c # strip_line cs)"
  by pat_completeness auto
termination
proof (relation "measure length")
  show "wf (measure length)" by simp
  show "(dropWhile (\<lambda>x. x \<noteq> 10 \<and> x \<noteq> 13) (drop 1 cs), c # cs) \<in> measure length"
    for c :: nat and cs
    using length_dropWhile_le [of "\<lambda>x. x \<noteq> 10 \<and> x \<noteq> 13" "drop 1 cs"] by simp
  show "(cs, c # cs) \<in> measure length" for c :: nat and cs
    by simp
qed

definition js_trim :: "jsstring \<Rightarrow> jsstring" where
  "js_trim s = rev (dropWhile is_ws (rev (dropWhile is_ws s)))"

text \<open>
  \<open>\b\<close> between the code unit before a position (\<open>None\<close> at the start) and the text from
  the position on.
\<close>

definition boundary :: "nat option \<Rightarrow> jsstring \<Rightarrow> bool" where
  "boundary prev s =
     ((case prev of None \<Rightarrow> False | Some c \<Rightarrow> is_word c)
      \<noteq> (case s of [] \<Rightarrow> False | c # cs \<Rightarrow> is_word c))"

text \<open>A (lower-case, non-empty) keyword matched at the front, case-insensitively, then \<open>\b\<close>.\<close>

definition kw_then_boundary :: "jsstring \<Rightarrow> jsstring \<Rightarrow> bool" where
  "kw_then_boundary kw s =
     (map lower_cu (take (length kw) s) = kw
      \<and> boundary (Some (last (take (length kw) s))) (drop (length kw) s))"

text \<open>\<open>/^select\b/i.test(text)\<close>\<close>

definition test_select :: "jsstring \<Rightarrow> bool" where
  "test_select s = kw_then_boundary (str ''select'') s"

text \<open>
  \<open>/\b(k1|k2|...)\b/i.test(text)\<close>: the start positions are tried from the left, the
  alternatives at each of them.
\<close>

fun test_words :: "jsstring list \<Rightarrow> nat option \<Rightarrow> jsstring \<Rightarrow> bool" where
  "test_words kws prev [] = (boundary prev [] \<and> list_ex (\<lambda>kw. kw_then_boundary kw []) kws)"
| "test_words kws prev (c # cs) =
     ((boundary prev (c # cs) \<and> list_ex (\<lambda>kw. kw_then_boundary kw (c # cs)) kws)
      \<or> test_words kws (Some c) cs)"

definition forbidden :: "jsstring list" where
  "forbidden =
     [str ''update'', str ''delete'', str ''insert'', str ''drop'', str ''alter'',
      str ''create'', str ''truncate'', str ''grant'', str ''revoke'']"

text \<open>\<open>/;\s*$/.test(text)\<close>\<close>

fun test_semi_end :: "jsstring \<Rightarrow> bool" where
  "test_semi_end [] = False"
| "test_semi_end (c # cs) = ((c = 59 \<and> list_all is_ws cs) \<or> test_semi_end cs)"

text \<open>The text the checks run on.\<close>

definition stripped :: "jsstring \<Rightarrow> jsstring" where
  "stripped q = js_trim (strip_line (strip_block q))"

fun isSafeSelectQuery :: "jsval \<Rightarrow> bool" where
  "isSafeSelectQuery (JStr q) =
     (let text = stripped q in
      if \<not> test_select text then False
      else if \<not> test_words [str ''from''] None text then False
      else if test_words forbidden None text then False
      else (let semicolons = length (filter (\<lambda>c. c = 59) text) in
            if semicolons > 1 then False
            else if semicolons = 1 \<and> \<not> test_semi_end text then False
            else True))"
| "isSafeSelectQuery v = False"

text \<open>
  The words of the specification, for comparison: a text starts with a keyword, or
  contains it as a whole word, in any mix of upper and lower case.
\<close>

definition starts_with_keyword :: "jsstring \<Rightarrow> jsstring \<Rightarrow> bool" where
  "starts_with_keyword kw s =
     (\<exists>w rest. s = w @ rest \<and> map lower_cu w = kw \<and> (rest = [] \<or> \<not> is_word (hd rest)))"

definition contains_word :: "jsstring \<Rightarrow> jsstring \<Rightarrow> bool" where
  "contains_word kw s =
     (\<exists>pre w post. s = pre @ w @ post \<and> map lower_cu w = kw
        \<and> (pre = [] \<or> \<not> is_word (last pre)) \<and> (post = [] \<or> \<not> is_word (hd post)))"

section \<open>SQL gateway: POST /execute-sql\<close>

record db_config =
  host :: jsval
  port :: jsval
  user :: jsval
  password :: jsval
  database :: jsval

text \<open>
  The request body: \<open>query\<close>, and \<open>dbConfig\<close> (\<open>None\<close> when the field is absent or
  falsy).
\<close>

record sql_body =
  query :: jsval
  dbConfig :: "db_config option"

text \<open>
  What the network and the database answer: the TCP probe (\<open>Some m\<close>: error or timeout
  with message \<open>m\<close>), \<open>mysql.createConnection\<close> (\<open>Some m\<close>: rejected),
  \<open>connection.execute\<close> (\<open>Inl m\<close>: rejected) and the first \<open>connection.end\<close>.
\<close>

record sql_world =
  net_connect :: "jsstring \<Rightarrow> jsval \<Rightarrow> jsstring option"
  mysql_createConnection :: "jsstring option"
  connection_execute :: "jsstring + jsval list list"
  connection_end :: "jsstring option"

text \<open>
  \<open>host.toLowerCase() === 'localhost'\<close>: no code unit outside ASCII lower-cases to a
  letter of \<open>localhost\<close>, so only the ASCII letters matter.
\<close>

definition toLowerCase :: "jsstring \<Rightarrow> jsstring" where
  "toLowerCase s = map lower_cu s"

text \<open>Lines 141--144: the host after normalisation.\<close>

definition normalize_host :: "jsval \<Rightarrow> jsstring" where
  "normalize_host h =
     (let h1 = js_trim (js_toString (if truthy h then h else JStr (str ''127.0.0.1'')))
      in if toLowerCase h1 = str ''localhost'' \<or> h1 = [] \<or> h1 = str ''::1''
         then str ''127.0.0.1'' else h1)"

text \<open>\<open>m || d\<close> for a message.\<close>

definition or_default :: "jsstring \<Rightarrow> jsstring \<Rightarrow> jsstring" where
  "or_default m d = (if m = [] then d else m)"

definition or_undefined :: "jsval \<Rightarrow> jsval" where
  "or_undefined v = (if truthy v then v else JUndefined)"

definition execute_sql :: "sql_world \<Rightarrow> sql_body \<Rightarrow> effect list" where
  "execute_sql w body =
     (case dbConfig body of
        None \<Rightarrow> [Respond (Failure 400 (str ''Missing query or dbConfig''))]
      | Some cfg \<Rightarrow>
          if \<not> truthy (query body)
          then [Respond (Failure 400 (str ''Missing query or dbConfig''))]
          else if \<not> isSafeSelectQuery (query body)
          then [Respond (Failure 400 (str ''Only single-statement SELECT queries are allowed.''))]
          else
            (let h = normalize_host (host cfg); dbPort = port cfg in
             if \<not> truthy (JStr h) \<or> \<not> truthy dbPort \<or> \<not> truthy (user cfg)
             then [Respond (Failure 400 (str ''Incomplete DB configuration (host, port, user required)''))]
             else
               (case net_connect w h dbPort of
                  Some m \<Rightarrow>
                    [Probe h dbPort,
                     Respond (Failure 502
                       (str ''Cannot reach '' @ h @ str '':'' @ js_toString dbPort
                        @ str ''. Ensure SSH tunnel is connected for the selected environment and the local port is open. (''
                        @ m @ str '')''))]
                | None \<Rightarrow>
                    Probe h dbPort
                    # CreateConnection h dbPort (user cfg) (or_undefined (password cfg))
                        (or_undefined (database cfg))
                    # (case mysql_createConnection w of
                         Some m \<Rightarrow> [Respond (Failure 500 (or_default m (str ''Unexpected server error'')))]
                       | None \<Rightarrow>
                           Execute (js_toString (query body))
                           # End
                           # (case connection_execute w of
                                Inl m \<Rightarrow> [Respond (Failure 500 (or_default m (str ''Query execution failed'')))]
                              | Inr rows \<Rightarrow>
                                  (case connection_end w of
                                     Some m \<Rightarrow>
                                       [End, Respond (Failure 500 (or_default m (str ''Query execution failed'')))]
                                   | None \<Rightarrow> [Respond (QuerySuccess rows)]))))))"

text \<open>The effects that touch the database.\<close>

fun is_db_effect :: "effect \<Rightarrow> bool" where
  "is_db_effect (CreateConnection h p u pw db) = True"
| "is_db_effect (Execute q) = True"
| "is_db_effect End = True"
| "is_db_effect x = False"

section \<open>Sample inputs\<close>

text \<open>The module variables as the source initialises them.\<close>

definition initial_state :: server_state where
  "initial_state = \<lparr>tunnelProcess = None, connectedEnv = JNull, tunnelLocalPort = None, sseClients = []\<rparr>"

text \<open>A tunnel to \<open>sit\<close> that has been confirmed, watched by three observers.\<close>

definition running_state :: server_state where
  "running_state =
     \<lparr>tunnelProcess = Some \<lparr>pid = Some 4242\<rparr>, connectedEnv = JStr (str ''sit''),
      tunnelLocalPort = Some 4085, sseClients = [1, 2, 3]\<rparr>"

definition sit_profile :: profile where
  "sit_profile = \<lparr>defaultLocalPort = 4085, remoteHost = str ''cdx-sit2-crs-tidb.int-np.cardx.co.th''\<rparr>"

text \<open>Answers of \<open>isPortFree\<close>: every port taken; every port free; only 4088 free.\<close>

definition all_busy :: "nat \<Rightarrow> bool" where
  "all_busy p = False"

definition all_free :: "nat \<Rightarrow> bool" where
  "all_free p = True"

definition only_4088 :: "nat \<Rightarrow> bool" where
  "only_4088 p = (p = 4088)"

text \<open>Observers: no write throws; the write to observer 2 throws.\<close>

definition no_write_failure :: "nat \<Rightarrow> bool" where
  "no_write_failure c = False"

definition second_fails :: "nat \<Rightarrow> bool" where
  "second_fails c = (c = 2)"

text \<open>The attempt of a connect request for \<open>sit\<close> right after its launch on 4085.\<close>

definition sit_attempt :: attempt where
  "sit_attempt =
     \<lparr>a_env = JStr (str ''sit''), a_chosenPort = 4085, a_statusStdout = str ''> Profile URL'',
      headersSent = False\<rparr>"

definition launched_state :: server_state where
  "launched_state =
     \<lparr>tunnelProcess = Some \<lparr>pid = Some 4242\<rparr>, connectedEnv = JNull,
      tunnelLocalPort = Some 4085, sseClients = []\<rparr>"

text \<open>
  A query request against \<open>localhost:4085\<close>, the same request without a port, and a
  world in which nothing listens on any port.
\<close>

definition sample_config :: db_config where
  "sample_config =
     \<lparr>host = JStr (str ''localhost''), port = JNum 4085, user = JStr (str ''root''),
      password = JUndefined, database = JStr (str ''crs'')\<rparr>"

definition sample_body :: sql_body where
  "sample_body =
     \<lparr>query = JStr (str ''SELECT * FROM t; -- comment''), dbConfig = Some sample_config\<rparr>"

definition portless_body :: sql_body where
  "portless_body =
     \<lparr>query = JStr (str ''SELECT * FROM t; -- comment''),
      dbConfig = Some (sample_config\<lparr>port := JUndefined\<rparr>)\<rparr>"

definition refused :: "jsstring \<Rightarrow> jsval \<Rightarrow> jsstring option" where
  "refused h p = Some (str ''connect ECONNREFUSED 127.0.0.1:4085'')"

definition tunnel_down :: sql_world where
  "tunnel_down =
     \<lparr>net_connect = refused, mysql_createConnection = None, connection_execute = Inr [],
      connection_end = None\<rparr>"

text \<open>A world in which the port answers and the query returns one row.\<close>

definition reachable :: "jsstring \<Rightarrow> jsval \<Rightarrow> jsstring option" where
  "reachable h p = None"

definition tunnel_up :: sql_world where
  "tunnel_up =
     \<lparr>net_connect = reachable, mysql_createConnection = None,
      connection_execute = Inr [[JNum 1]], connection_end = None\<rparr>"

text \<open>
  The pairing the specification asks of a snapshot: \<open>env\<close> and \<open>localPort\<close> both null
  or both non-null.
\<close>

definition env_port_paired :: "snapshot \<Rightarrow> bool" where
  "env_port_paired p = ((snap_env p = JNull) = (snap_localPort p = None))"

section \<open>Port allocation: results\<close>

lemma scan_none_free: "\<forall>p\<in>set ps. \<not> free p \<Longrightarrow> scan free ps c = c"
  by (induction ps) auto

lemma scan_first_free:
  "\<forall>q\<in>set xs. \<not> free q \<Longrightarrow> free p \<Longrightarrow> scan free (xs @ p # ys) c = p"
  by (induction xs) auto

lemma mem_shifted:
  "q \<in> set (map (\<lambda>j. d + j) [a..<b]) \<longleftrightarrow> (\<exists>j. a \<le> j \<and> j < b \<and> q = d + (j::nat))"
  by (induction b) auto

lemma range51_split:
  assumes "i < 51"
  shows "range51 d = map (\<lambda>j. d + j) [0..<i] @ (d + i) # map (\<lambda>j. d + j) [Suc i..<51]"
proof -
  have "[0..<51] = [0..<i] @ i # [Suc i..<51]"
    using assms by (metis Suc_leI le0 upt_add_eq_append upt_conv_Cons le_add_diff_inverse less_imp_le)
  then show ?thesis
    by (simp add: range51_def)
qed

lemma chosenPort_first:
  assumes "i < 51" "free (d + i)" "\<forall>j<i. \<not> free (d + j)"
  shows "chosenPort free d = d + i"
proof -
  have "\<not> free q" if "q \<in> set (map (\<lambda>j. d + j) [0..<i])" for q
  proof -
    from that obtain j where "j < i" "q = d + j"
      unfolding mem_shifted by blast
    with assms(3) show ?thesis by simp
  qed
  then have "scan free (map (\<lambda>j. d + j) [0..<i] @ (d + i) # map (\<lambda>j. d + j) [Suc i..<51]) d = d + i"
    using assms(2) by (intro scan_first_free) blast+
  then show ?thesis
    by (simp only: chosenPort_def range51_split [OF assms(1)])
qed

lemma chosenPort_none:
  assumes "\<forall>k<51. \<not> free (d + k)"
  shows "chosenPort free d = d"
proof -
  have "\<not> free q" if "q \<in> set (range51 d)" for q
  proof -
    from that obtain j where "j < 51" "q = d + j"
      unfolding range51_def mem_shifted by blast
    with assms show ?thesis by simp
  qed
  then show ?thesis
    unfolding chosenPort_def by (intro scan_none_free) blast
qed

text \<open>
  C3 (as amended).  The scan returns the first free port of the sequence preferred,
  preferred+1, ..., preferred+50.  When none of them is free it returns the preferred port
  itself, and the launch goes on with it: the port is stored, the subprocess is spawned on
  it, and no response is sent at this step.
\<close>

theorem port_allocation:
  "(i < 51 \<and> free (defaultLocalPort prof + i) \<and> (\<forall>j<i. \<not> free (defaultLocalPort prof + j))
      \<longrightarrow> chosenPort free (defaultLocalPort prof) = defaultLocalPort prof + i)
   \<and> ((\<forall>k<51. \<not> free (defaultLocalPort prof + k))
      \<longrightarrow> chosenPort free (defaultLocalPort prof) = defaultLocalPort prof)
   \<and> (case tunnel_launch wfail free e prof out newproc s of
        (s', a, fx) \<Rightarrow>
          tunnelLocalPort s' = Some (chosenPort free (defaultLocalPort prof))
          \<and> tunnelProcess s' = Some newproc
          \<and> a_chosenPort a = chosenPort free (defaultLocalPort prof)
          \<and> responses fx = []
          \<and> Spawn (sshTunnelCommand (chosenPort free (defaultLocalPort prof)) (remoteHost prof)) \<in> set fx)"
  using chosenPort_first [where i = i and free = free and d = "defaultLocalPort prof"]
    chosenPort_none [where free = free and d = "defaultLocalPort prof"]
  by (auto simp: tunnel_launch_def broadcastStatus_def Let_def)

theorem port_allocation_witness:
  "chosenPort only_4088 (defaultLocalPort sit_profile) = 4088
   \<and> chosenPort all_busy (defaultLocalPort sit_profile) = 4085"
  using port_allocation [where i = 3 and free = only_4088 and prof = sit_profile]
    port_allocation [where free = all_busy and prof = sit_profile]
  by (simp add: only_4088_def all_busy_def sit_profile_def)

text \<open>
  C3 as stated fails: with all 51 ports taken, the attempt for \<open>sit\<close> does not end
  with a "no port available" failure; the tunnel is spawned on 4085.
\<close>

theorem no_port_available_counterexample:
  "tunnel_launch no_write_failure all_busy (JStr (str ''sit'')) sit_profile [] \<lparr>pid = Some 4242\<rparr> initial_state
   = (\<lparr>tunnelProcess = Some \<lparr>pid = Some 4242\<rparr>, connectedEnv = JNull, tunnelLocalPort = Some 4085,
        sseClients = []\<rparr>,
      \<lparr>a_env = JStr (str ''sit''), a_chosenPort = 4085, a_statusStdout = [], headersSent = False\<rparr>,
      [Broadcast \<lparr>snap_status = disconnected, snap_env = JNull, snap_pid = None, snap_localPort = Some 4085\<rparr> [],
       Spawn (sshTunnelCommand 4085 (str ''cdx-sit2-crs-tidb.int-np.cardx.co.th''))])"
proof -
  have "chosenPort all_busy 4085 = 4085"
    by (rule chosenPort_none) (simp add: all_busy_def)
  then show ?thesis
    by (simp add: tunnel_launch_def broadcastStatus_def getCurrentStatus_def initial_state_def
        sit_profile_def)
qed

section \<open>Tunnel lifecycle and broadcaster: results\<close>

text \<open>
  C5 (as amended).  A connect request whose \<open>env\<close> is missing (or otherwise falsy) or names
  no property of the profile table is answered with the 400 response "Invalid or missing
  environment specified." and nothing is launched.  When no tunnel process is held, the
  state is unchanged and nothing is broadcast.  When one is held, it is killed first, the
  slot is cleared and one snapshot is broadcast, before the rejection.
\<close>

theorem invalid_environment:
  assumes "\<not> truthy (body_env body) \<or> envTunnel_get (js_toString (body_env body)) = Absent"
  shows "connect_request wfail body s =
     (case tunnelProcess s of
        None \<Rightarrow>
          (s, [Respond (Failure 400 (str ''Invalid or missing environment specified.''))], Finished)
      | Some p \<Rightarrow>
          (s\<lparr>tunnelProcess := None, connectedEnv := JNull, tunnelLocalPort := None\<rparr>,
           [Kill p,
            Broadcast \<lparr>snap_status = disconnected, snap_env = JNull, snap_pid = None,
                       snap_localPort = None\<rparr> (write_all wfail (sseClients s)),
            Respond (Failure 400 (str ''Invalid or missing environment specified.''))],
           Finished))"
  using assms
  by (auto simp: connect_request_def broadcastStatus_def getCurrentStatus_def Let_def
      split: option.splits)

lemma prod_absent: "envTunnel_get (str ''prod'') = Absent"
  by (simp add: envTunnel_get_def envTunnel_def object_prototype_keys_def str_def)

theorem invalid_environment_witness:
  "connect_request no_write_failure \<lparr>body_env = JStr (str ''prod'')\<rparr> initial_state
   = (initial_state, [Respond (Failure 400 (str ''Invalid or missing environment specified.''))], Finished)"
  using invalid_environment [where body = "\<lparr>body_env = JStr (str ''prod'')\<rparr>" and s = initial_state
      and wfail = no_write_failure]
  by (simp add: prod_absent initial_state_def)

text \<open>
  C5 as stated fails: with a tunnel to \<open>sit\<close> running, a connect request for the unknown
  environment \<open>prod\<close> kills the tunnel, clears the slot and broadcasts a snapshot.
\<close>

theorem invalid_environment_counterexample:
  "connect_request no_write_failure \<lparr>body_env = JStr (str ''prod'')\<rparr> running_state
   = (\<lparr>tunnelProcess = None, connectedEnv = JNull, tunnelLocalPort = None, sseClients = [1, 2, 3]\<rparr>,
      [Kill \<lparr>pid = Some 4242\<rparr>,
       Broadcast \<lparr>snap_status = disconnected, snap_env = JNull, snap_pid = None, snap_localPort = None\<rparr>
         [Wrote 1, Wrote 2, Wrote 3],
       Respond (Failure 400 (str ''Invalid or missing environment specified.''))],
      Finished)
   \<and> fst (connect_request no_write_failure \<lparr>body_env = JStr (str ''prod'')\<rparr> running_state)
       \<noteq> running_state"
  by (simp add: connect_request_def broadcastStatus_def getCurrentStatus_def Let_def prod_absent
      running_state_def no_write_failure_def)

text \<open>
  What holds of disconnect: from any state, and whatever the logout command does, a call
  answers with the success response and leaves no process held (status
  \<open>disconnected\<close>); a second call right after it answers with success again and
  changes nothing.
\<close>

lemma disconnect_idempotent:
  "case disconnect wf_a err_a s of
     (s1, fx1) \<Rightarrow>
       (case disconnect wf_b err_b s1 of
          (s2, fx2) \<Rightarrow>
            responses fx1 = [DisconnectSuccess (str ''Tunnel terminated and successfully logged out.'')]
            \<and> responses fx2 = [DisconnectSuccess (str ''Tunnel terminated and successfully logged out.'')]
            \<and> tunnelProcess s1 = None
            \<and> snap_status (getCurrentStatus s1) = disconnected
            \<and> s2 = s1
            \<and> snap_status (getCurrentStatus s2) = disconnected)"
  by (auto simp: disconnect_def disconnect_request_def logout_callback_def broadcastStatus_def
      getCurrentStatus_def Let_def split: option.splits)


lemma write_all_map: "write_all wfail cs = map (\<lambda>c. if wfail c then WriteThrew c else Wrote c) cs"
  by (induction cs) auto

text \<open>
  C8 (as amended).  A broadcast attempts one write per observer, in order; a write that
  throws is swallowed and every observer whose write does not throw receives the snapshot.
  The broadcast returns normally and leaves the observer set as it was: an observer is
  removed only by the \<open>close\<close> handler of its own request.
\<close>

theorem broadcast_failure_isolated:
  "case broadcastStatus wfail s of
     (s', fx) \<Rightarrow>
       s' = s
       \<and> deliveries fx = map (\<lambda>c. if wfail c then WriteThrew c else Wrote c) (sseClients s)
       \<and> (\<forall>c\<in>set (sseClients s). \<not> wfail c \<longrightarrow> Wrote c \<in> set (deliveries fx))
       \<and> (\<forall>c\<in>set (sseClients s). wfail c \<longrightarrow> WriteThrew c \<in> set (deliveries fx))
       \<and> sseClients s' = sseClients s
       \<and> c \<notin> set (sseClients (events_close c s))
       \<and> (\<forall>d. d \<noteq> c \<longrightarrow> (d \<in> set (sseClients (events_close c s))) = (d \<in> set (sseClients s)))"
  by (auto simp: broadcastStatus_def write_all_map events_close_def)

theorem broadcast_failure_isolated_witness:
  "broadcastStatus second_fails running_state
     = (running_state,
        Broadcast \<lparr>snap_status = connected, snap_env = JStr (str ''sit''), snap_pid = Some 4242,
                   snap_localPort = Some 4085\<rparr> [Wrote 1, WriteThrew 2, Wrote 3])
   \<and> sseClients (events_close 2 running_state) = [1, 3]"
  using broadcast_failure_isolated [where wfail = second_fails and s = running_state and c = 2]
  by (simp add: broadcastStatus_def getCurrentStatus_def running_state_def second_fails_def
      events_close_def)

text \<open>
  C8 as stated fails: after a broadcast in which the write to observer 2 threw, observer 2
  is still in the observer set.
\<close>

theorem failing_observer_kept_counterexample:
  "2 \<in> set (sseClients (fst (broadcastStatus second_fails running_state)))
   \<and> WriteThrew 2 \<in> set (deliveries (snd (broadcastStatus second_fails running_state)))"
  by (simp add: broadcastStatus_def getCurrentStatus_def running_state_def second_fails_def)

text \<open>
  C4 (as amended).  The spawn-error handler and the exit handler, whenever they fire (also
  after the response has been sent), clear the process handle, the environment and the
  local port, and broadcast the cleared snapshot.  The error-stream handler, when the
  response of the attempt has not been sent and a process is held, kills the process,
  clears the slot, sends the failure response and broadcasts the cleared snapshot; when
  the response has already been sent, it broadcasts the current snapshot and leaves the
  slot untouched.
\<close>

theorem handlers_teardown:
  "fst (on_error wfail (s, a)) = s\<lparr>tunnelProcess := None, connectedEnv := JNull, tunnelLocalPort := None\<rparr>
   \<and> broadcasts (snd (snd (on_error wfail (s, a))))
       = [\<lparr>snap_status = disconnected, snap_env = JNull, snap_pid = None, snap_localPort = None\<rparr>]
   \<and> fst (on_close wfail (s, a)) = s\<lparr>tunnelProcess := None, connectedEnv := JNull, tunnelLocalPort := None\<rparr>
   \<and> broadcasts (snd (snd (on_close wfail (s, a))))
       = [\<lparr>snap_status = disconnected, snap_env = JNull, snap_pid = None, snap_localPort = None\<rparr>]
   \<and> (\<not> headersSent a \<and> tunnelProcess s = Some p \<longrightarrow>
        on_stderr wfail d (s, a)
        = Inr (s\<lparr>tunnelProcess := None, connectedEnv := JNull, tunnelLocalPort := None\<rparr>,
               a\<lparr>headersSent := True\<rparr>,
               [Kill p,
                Respond (Failure 500 (str ''Failed to establish SSH tunnel: '' @ d)),
                Broadcast \<lparr>snap_status = disconnected, snap_env = JNull, snap_pid = None,
                           snap_localPort = None\<rparr> (write_all wfail (sseClients s))]))
   \<and> (headersSent a \<longrightarrow>
        on_stderr wfail d (s, a)
        = Inr (s, a, [Broadcast (getCurrentStatus s) (write_all wfail (sseClients s))]))"
  by (auto simp: on_error_def on_close_def on_stderr_def broadcastStatus_def getCurrentStatus_def
      Let_def)

theorem handlers_teardown_witness:
  "on_stderr no_write_failure (str ''ssh: connect refused'') (launched_state, sit_attempt)
     = Inr (initial_state, sit_attempt\<lparr>headersSent := True\<rparr>,
            [Kill \<lparr>pid = Some 4242\<rparr>,
             Respond (Failure 500 (str ''Failed to establish SSH tunnel: '' @ str ''ssh: connect refused'')),
             Broadcast \<lparr>snap_status = disconnected, snap_env = JNull, snap_pid = None,
                        snap_localPort = None\<rparr> []])
   \<and> fst (on_close no_write_failure (running_state, sit_attempt\<lparr>headersSent := True\<rparr>))
     = running_state\<lparr>tunnelProcess := None, connectedEnv := JNull, tunnelLocalPort := None\<rparr>
   \<and> on_stderr no_write_failure (str ''warning'') (running_state, sit_attempt\<lparr>headersSent := True\<rparr>)
     = Inr (running_state, sit_attempt\<lparr>headersSent := True\<rparr>,
            [Broadcast (getCurrentStatus running_state)
               (write_all no_write_failure (sseClients running_state))])"
  using handlers_teardown [where s = launched_state and a = sit_attempt and wfail = no_write_failure
      and p = "\<lparr>pid = Some 4242\<rparr>" and d = "str ''ssh: connect refused''"]
    handlers_teardown [where s = running_state and a = "sit_attempt\<lparr>headersSent := True\<rparr>"
      and wfail = no_write_failure and d = "str ''warning''"]
  by (simp add: launched_state_def sit_attempt_def initial_state_def running_state_def)

text \<open>
  C4 as stated fails: error-stream data that arrives after the success response leaves the
  process handle, the environment and the local port in place.
\<close>

theorem stderr_after_response_counterexample:
  "on_stderr no_write_failure (str ''warning'') (running_state, sit_attempt\<lparr>headersSent := True\<rparr>)
     = Inr (running_state, sit_attempt\<lparr>headersSent := True\<rparr>,
            [Broadcast \<lparr>snap_status = connected, snap_env = JStr (str ''sit''), snap_pid = Some 4242,
                        snap_localPort = Some 4085\<rparr> [Wrote 1, Wrote 2, Wrote 3]])
   \<and> tunnelProcess running_state = Some \<lparr>pid = Some 4242\<rparr>"
  by (simp add: on_stderr_def broadcastStatus_def getCurrentStatus_def running_state_def
      sit_attempt_def no_write_failure_def)

text \<open>
  C2 (as amended).  Every snapshot broadcast by a path that clears the slot (the replace
  step of connect, the spawn-error handler, the exit handler, and the error-stream handler
  before the response is sent) has \<open>env\<close> and \<open>localPort\<close> both null.  The snapshot
  broadcast by the confirmation timer, when the local port is still set, has both non-null.
  The snapshot broadcast right after port selection carries the chosen port while \<open>env\<close>
  is still what it was before.
\<close>

theorem snapshot_env_port:
  "(\<forall>p\<in>set (broadcasts (fst (snd (connect_request wfail body s)))).
       snap_env p = JNull \<and> snap_localPort p = None)
   \<and> (\<forall>p\<in>set (broadcasts (snd (snd (on_error wfail (s, a))))).
       snap_env p = JNull \<and> snap_localPort p = None)
   \<and> (\<forall>p\<in>set (broadcasts (snd (snd (on_close wfail (s, a))))).
       snap_env p = JNull \<and> snap_localPort p = None)
   \<and> (\<not> headersSent a \<and> on_stderr wfail d (s, a) = Inr (s1, a1, fx1) \<longrightarrow>
        broadcasts fx1 \<noteq> []
        \<and> (\<forall>p\<in>set (broadcasts fx1). snap_env p = JNull \<and> snap_localPort p = None))
   \<and> (\<not> headersSent a \<and> tunnelLocalPort s \<noteq> None \<and> on_timer wfail (s, a) = Inr (s2, a2, fx2) \<longrightarrow>
        broadcasts fx2 \<noteq> []
        \<and> (\<forall>p\<in>set (broadcasts fx2). snap_env p \<noteq> JNull \<and> snap_localPort p \<noteq> None))
   \<and> broadcasts (snd (snd (tunnel_launch wfail free e prof out newproc s)))
       = [(getCurrentStatus s)\<lparr>snap_localPort := Some (chosenPort free (defaultLocalPort prof))\<rparr>]"
proof -
  have timer: "a_env a \<noteq> JNull" if "toUpperCase (a_env a) = Inr up" for up
    using that by (cases "a_env a") auto
  show ?thesis
    by (auto simp: connect_request_def on_error_def on_close_def on_stderr_def on_timer_def
        tunnel_launch_def broadcastStatus_def getCurrentStatus_def Let_def timer
        split: option.splits sum.splits if_splits)
qed

theorem snapshot_env_port_witness:
  "on_timer no_write_failure (launched_state, sit_attempt)
     = Inr (launched_state\<lparr>connectedEnv := JStr (str ''sit'')\<rparr>, sit_attempt\<lparr>headersSent := True\<rparr>,
            [Broadcast \<lparr>snap_status = connected, snap_env = JStr (str ''sit''), snap_pid = Some 4242,
                        snap_localPort = Some 4085\<rparr> [],
             Respond (ConnectSuccess (str ''> Profile URL'') 4085
               (str ''SSH tunnel for SIT environment initiated on port 4085.''))])
   \<and> broadcasts (fst (snd (connect_request no_write_failure \<lparr>body_env = JStr (str ''uat1'')\<rparr> running_state)))
     = [\<lparr>snap_status = disconnected, snap_env = JNull, snap_pid = None, snap_localPort = None\<rparr>]"
proof -
  have t: "on_timer no_write_failure (launched_state, sit_attempt)
     = Inr (launched_state\<lparr>connectedEnv := JStr (str ''sit'')\<rparr>, sit_attempt\<lparr>headersSent := True\<rparr>,
            [Broadcast \<lparr>snap_status = connected, snap_env = JStr (str ''sit''), snap_pid = Some 4242,
                        snap_localPort = Some 4085\<rparr> [],
             Respond (ConnectSuccess (str ''> Profile URL'') 4085
               (str ''SSH tunnel for SIT environment initiated on port 4085.''))])"
    by (simp add: on_timer_def broadcastStatus_def getCurrentStatus_def launched_state_def
        sit_attempt_def no_write_failure_def str_def upper_cu_def dec_nat.simps)
  have c: "broadcasts (fst (snd (connect_request no_write_failure \<lparr>body_env = JStr (str ''uat1'')\<rparr> running_state)))
     = [\<lparr>snap_status = disconnected, snap_env = JNull, snap_pid = None, snap_localPort = None\<rparr>]"
    by (simp add: connect_request_def broadcastStatus_def getCurrentStatus_def running_state_def
        Let_def envTunnel_get_def envTunnel_def str_def)
  show ?thesis
    using snapshot_env_port [where wfail = no_write_failure and s = launched_state and a = sit_attempt
        and ?s2.0 = "launched_state\<lparr>connectedEnv := JStr (str ''sit'')\<rparr>"] t c
    by simp
qed

text \<open>
  C2 as stated fails: the snapshot broadcast right after port selection, starting from the
  initial state, has \<open>localPort\<close> 4085 and \<open>env\<close> null.
\<close>

theorem allocation_snapshot_counterexample:
  "broadcasts (snd (snd (tunnel_launch no_write_failure all_free (JStr (str ''sit'')) sit_profile []
                           \<lparr>pid = Some 4242\<rparr> initial_state)))
     = [\<lparr>snap_status = disconnected, snap_env = JNull, snap_pid = None, snap_localPort = Some 4085\<rparr>]
   \<and> \<not> env_port_paired
         \<lparr>snap_status = disconnected, snap_env = JNull, snap_pid = None, snap_localPort = Some 4085\<rparr>"
proof -
  have "chosenPort all_free 4085 = 4085 + 0"
    by (rule chosenPort_first) (simp_all add: all_free_def)
  then show ?thesis
    by (simp add: tunnel_launch_def broadcastStatus_def getCurrentStatus_def initial_state_def
        sit_profile_def env_port_paired_def)
qed

text \<open>
  C1.  The claim asks for the failure response when the subprocess exits within the
  confirmation delay.  Here the exit handler runs, then the timer: the code answers with
  the success response, and records \<open>sit\<close> as connected with no process held.
\<close>

theorem exit_within_delay_reports_success:
  "run no_write_failure [Close 1, Timer] (launched_state, sit_attempt)
     = Inr (\<lparr>tunnelProcess = None, connectedEnv = JStr (str ''sit''), tunnelLocalPort = None,
              sseClients = []\<rparr>,
            sit_attempt\<lparr>headersSent := True\<rparr>,
            [Broadcast \<lparr>snap_status = disconnected, snap_env = JNull, snap_pid = None,
                        snap_localPort = None\<rparr> [],
             Broadcast \<lparr>snap_status = disconnected, snap_env = JStr (str ''sit''), snap_pid = None,
                        snap_localPort = None\<rparr> [],
             Respond (ConnectSuccess (str ''> Profile URL'') 4085
               (str ''SSH tunnel for SIT environment initiated on port 4085.''))])"
  by (simp add: on_close_def on_timer_def broadcastStatus_def getCurrentStatus_def launched_state_def
      sit_attempt_def no_write_failure_def str_def upper_cu_def dec_nat.simps)

text \<open>
  The \<open>headersSent\<close> guard: in a run of subprocess events and the timer, the attempt is
  answered at most once, and it has been answered exactly when \<open>headersSent\<close> is set.
\<close>

lemma handle_responses:
  assumes "handle wfail ev (s, a) = Inr (s', a', fx)"
  shows "headersSent a \<longrightarrow> headersSent a' \<and> responses fx = []"
    and "\<not> headersSent a \<longrightarrow> (if headersSent a' then length (responses fx) = 1 else responses fx = [])"
  using assms
  by (cases ev; auto simp: on_error_def on_close_def on_stderr_def on_timer_def broadcastStatus_def
      Let_def split: option.splits sum.splits if_splits)+

lemma run_responses:
  "run wfail evs (s, a) = Inr (s', a', fx) \<Longrightarrow>
     (headersSent a \<longrightarrow> headersSent a' \<and> responses fx = [])
     \<and> (\<not> headersSent a \<longrightarrow> (if headersSent a' then length (responses fx) = 1 else responses fx = []))"
proof (induction evs arbitrary: s a fx)
  case Nil
  then show ?case by auto
next
  case (Cons ev evs)
  from Cons.prems obtain s1 a1 fx1 fx2 where
    h: "handle wfail ev (s, a) = Inr (s1, a1, fx1)" and
    r: "run wfail evs (s1, a1) = Inr (s', a', fx2)" and
    fx: "fx = fx1 @ fx2"
    by (auto split: sum.splits)
  have app: "responses (xs @ ys) = responses xs @ responses ys" for xs ys
    by (induction xs rule: responses.induct) auto
  from handle_responses [OF h] Cons.IH [OF r] show ?case
    by (auto simp: fx app split: if_splits)
qed

section \<open>SQL safety validator: results\<close>

lemma is_word_lower_cu: "is_word (lower_cu c) = is_word c"
  by (auto simp: is_word_def lower_cu_def)

lemma word_of_keyword:
  assumes "map lower_cu w = kw" "kw \<noteq> []"
  shows "is_word (hd w) = is_word (hd kw)" and "is_word (last w) = is_word (last kw)"
proof -
  from assms have w: "w \<noteq> []" by auto
  from assms(1) w have "hd kw = lower_cu (hd w)" "last kw = lower_cu (last w)"
    by (auto simp: hd_map last_map)
  then show "is_word (hd w) = is_word (hd kw)" and "is_word (last w) = is_word (last kw)"
    by (simp_all add: is_word_lower_cu)
qed

text \<open>
  The scan for \<open>\b(k1|k2|...)\b\<close> finds exactly the whole-word occurrences of the
  keywords.
\<close>

lemma test_words_sound:
  "test_words kws prev s \<Longrightarrow>
     \<exists>kw\<in>set kws. \<exists>pre post. s = pre @ post
        \<and> boundary (if pre = [] then prev else Some (last pre)) post \<and> kw_then_boundary kw post"
proof (induction s arbitrary: prev)
  case Nil
  then show ?case by (auto simp: list_ex_iff)
next
  case (Cons c cs)
  show ?case
  proof (cases "boundary prev (c # cs) \<and> list_ex (\<lambda>kw. kw_then_boundary kw (c # cs)) kws")
    case True
    then obtain kw where "kw \<in> set kws" "kw_then_boundary kw (c # cs)"
      by (auto simp: list_ex_iff)
    with True show ?thesis
      by (intro bexI [of _ kw] exI [of _ "[]"] exI [of _ "c # cs"]) auto
  next
    case False
    with Cons.prems have "test_words kws (Some c) cs" by auto
    from Cons.IH [OF this] obtain kw pre post where
      kw: "kw \<in> set kws" and s: "cs = pre @ post" and
      b: "boundary (if pre = [] then Some c else Some (last pre)) post" and
      k: "kw_then_boundary kw post"
      by blast
    from b have "boundary (if c # pre = [] then prev else Some (last (c # pre))) post"
      by (cases "pre = []") auto
    with kw s k show ?thesis
      by (intro bexI [of _ kw] exI [of _ "c # pre"] exI [of _ post]) auto
  qed
qed

lemma test_words_complete:
  "kw \<in> set kws \<Longrightarrow> boundary (if pre = [] then prev else Some (last pre)) post
     \<Longrightarrow> kw_then_boundary kw post \<Longrightarrow> test_words kws prev (pre @ post)"
proof (induction pre arbitrary: prev)
  case Nil
  then show ?case by (cases post) (auto simp: list_ex_iff)
next
  case (Cons c pre)
  from Cons.prems(2) have "boundary (if pre = [] then Some c else Some (last pre)) post"
    by (cases "pre = []") auto
  from Cons.IH [OF Cons.prems(1) this Cons.prems(3)] show ?case by simp
qed

lemma contains_word_iff:
  assumes "kw \<noteq> []" "is_word (hd kw)" "is_word (last kw)"
  shows "contains_word kw s \<longleftrightarrow>
     (\<exists>pre post. s = pre @ post \<and> boundary (if pre = [] then None else Some (last pre)) post
        \<and> kw_then_boundary kw post)"
proof
  assume "contains_word kw s"
  then obtain pre w post where s: "s = pre @ w @ post" and w: "map lower_cu w = kw"
    and l: "pre = [] \<or> \<not> is_word (last pre)" and r: "post = [] \<or> \<not> is_word (hd post)"
    unfolding contains_word_def by blast
  from w assms(1) have wne: "w \<noteq> []" by auto
  from w have len: "length kw = length w" by auto
  have hw: "is_word (hd w)" and lw: "is_word (last w)"
    using word_of_keyword [OF w assms(1)] assms(2,3) by simp_all
  have "boundary (if pre = [] then None else Some (last pre)) (w @ post)"
    using l hw wne by (cases w) (auto simp: boundary_def)
  moreover have "kw_then_boundary kw (w @ post)"
    using r lw w by (cases post) (auto simp: kw_then_boundary_def boundary_def len)
  ultimately show "\<exists>pre post. s = pre @ post
      \<and> boundary (if pre = [] then None else Some (last pre)) post \<and> kw_then_boundary kw post"
    using s by blast
next
  assume "\<exists>pre post. s = pre @ post \<and> boundary (if pre = [] then None else Some (last pre)) post
        \<and> kw_then_boundary kw post"
  then obtain pre post where s: "s = pre @ post"
    and b: "boundary (if pre = [] then None else Some (last pre)) post"
    and k: "kw_then_boundary kw post"
    by blast
  define w where "w = take (length kw) post"
  define rest where "rest = drop (length kw) post"
  from k have w: "map lower_cu w = kw" and br: "boundary (Some (last w)) rest"
    by (simp_all add: kw_then_boundary_def w_def rest_def)
  from w assms(1) have wne: "w \<noteq> []" by auto
  have hw: "is_word (hd w)" and lw: "is_word (last w)"
    using word_of_keyword [OF w assms(1)] assms(2,3) by simp_all
  have post: "post = w @ rest" by (simp add: w_def rest_def)
  from wne obtain x xs where wx: "w = x # xs" by (cases w) auto
  from b hw have l: "pre = [] \<or> \<not> is_word (last pre)"
    by (auto simp: boundary_def post wx split: if_splits)
  from br lw have r: "rest = [] \<or> \<not> is_word (hd rest)"
    by (cases rest) (auto simp: boundary_def)
  from s post w l r show "contains_word kw s"
    unfolding contains_word_def by blast
qed

lemma test_words_contains:
  assumes "\<forall>kw\<in>set kws. kw \<noteq> [] \<and> is_word (hd kw) \<and> is_word (last kw)"
  shows "test_words kws None s \<longleftrightarrow> (\<exists>kw\<in>set kws. contains_word kw s)"
proof
  assume "test_words kws None s"
  from test_words_sound [OF this] obtain kw pre post where
    "kw \<in> set kws" "s = pre @ post" "boundary (if pre = [] then None else Some (last pre)) post"
    "kw_then_boundary kw post"
    by blast
  with assms show "\<exists>kw\<in>set kws. contains_word kw s"
    using contains_word_iff [of kw s] by blast
next
  assume "\<exists>kw\<in>set kws. contains_word kw s"
  then obtain kw where kw: "kw \<in> set kws" and c: "contains_word kw s" by blast
  with assms have "kw \<noteq> []" "is_word (hd kw)" "is_word (last kw)" by auto
  from contains_word_iff [OF this] c obtain pre post where
    "s = pre @ post" "boundary (if pre = [] then None else Some (last pre)) post"
    "kw_then_boundary kw post"
    by blast
  with test_words_complete [OF kw, of pre None post] show "test_words kws None s" by simp
qed

lemma test_select_starts:
  assumes "test_select s"
  shows "starts_with_keyword (str ''select'') s"
proof -
  define w where "w = take (length (str ''select'')) s"
  define rest where "rest = drop (length (str ''select'')) s"
  from assms have w: "map lower_cu w = str ''select''" and b: "boundary (Some (last w)) rest"
    by (simp_all add: test_select_def kw_then_boundary_def w_def rest_def)
  have ne: "str ''select'' \<noteq> []" and lk: "is_word (last (str ''select''))"
    by (simp_all add: str_def is_word_def)
  from word_of_keyword(2) [OF w ne] lk have "is_word (last w)" by simp
  with b have "rest = [] \<or> \<not> is_word (hd rest)"
    by (cases rest) (auto simp: boundary_def)
  moreover have "s = w @ rest" by (simp add: w_def rest_def)
  ultimately show ?thesis
    using w unfolding starts_with_keyword_def by blast
qed

lemma test_semi_end_split:
  "test_semi_end s \<Longrightarrow> \<exists>pre post. s = pre @ 59 # post \<and> list_all is_ws post"
proof (induction s)
  case Nil
  then show ?case by simp
next
  case (Cons c cs)
  show ?case
  proof (cases "c = 59 \<and> list_all is_ws cs")
    case True
    then show ?thesis by (intro exI [of _ "[]"] exI [of _ cs]) simp
  next
    case False
    with Cons obtain pre post where "cs = pre @ 59 # post" "list_all is_ws post" by auto
    then show ?thesis by (intro exI [of _ "c # pre"] exI [of _ post]) simp
  qed
qed

lemma js_trim_last: "js_trim x \<noteq> [] \<Longrightarrow> \<not> is_ws (last (js_trim x))"
  by (simp add: js_trim_def last_rev hd_dropWhile)

lemma semi_end_last:
  assumes "test_semi_end (js_trim x)"
  shows "last (js_trim x) = 59"
proof -
  from test_semi_end_split [OF assms] obtain pre post where
    s: "js_trim x = pre @ 59 # post" and ws: "list_all is_ws post"
    by blast
  have "post = []"
  proof (rule ccontr)
    assume "post \<noteq> []"
    with s have "last (js_trim x) = last post" by simp
    moreover from ws \<open>post \<noteq> []\<close> have "is_ws (last post)"
      by (simp add: list_all_iff)
    moreover from s have "js_trim x \<noteq> []" by simp
    ultimately show False using js_trim_last [of x] by simp
  qed
  with s show ?thesis by simp
qed

lemma keywords_are_words:
  "\<forall>kw\<in>set [str ''from'']. kw \<noteq> [] \<and> is_word (hd kw) \<and> is_word (last kw)"
  "\<forall>kw\<in>set forbidden. kw \<noteq> [] \<and> is_word (hd kw) \<and> is_word (last kw)"
  by (simp_all add: forbidden_def str_def is_word_def)

text \<open>
  C7.  For every query the validator accepts, the text left after removing block comments,
  line comments and surrounding whitespace starts with the keyword SELECT (in any case),
  contains FROM as a whole word, contains none of UPDATE, DELETE, INSERT, DROP, ALTER,
  CREATE, TRUNCATE, GRANT, REVOKE as a whole word, and has at most one semicolon, which,
  if present, is its last character.
\<close>

theorem safe_select_accepted:
  assumes "isSafeSelectQuery v"
  shows "\<exists>q. v = JStr q
     \<and> starts_with_keyword (str ''select'') (stripped q)
     \<and> contains_word (str ''from'') (stripped q)
     \<and> (\<forall>kw\<in>set forbidden. \<not> contains_word kw (stripped q))
     \<and> length (filter (\<lambda>c. c = 59) (stripped q)) \<le> 1
     \<and> (59 \<in> set (stripped q) \<longrightarrow> last (stripped q) = 59)"
proof -
  from assms obtain q where v: "v = JStr q" by (cases v) auto
  define t where "t = stripped q"
  from assms have sel: "test_select t" and frm: "test_words [str ''from''] None t"
    and forb: "\<not> test_words forbidden None t"
    and cnt: "length (filter (\<lambda>c. c = 59) t) \<le> 1"
    and fin: "length (filter (\<lambda>c. c = 59) t) = 1 \<longrightarrow> test_semi_end t"
    by (auto simp: v t_def Let_def split: if_splits)
  have "59 \<in> set t \<longrightarrow> last t = 59"
  proof
    assume "59 \<in> set t"
    then have "filter (\<lambda>c. c = 59) t \<noteq> []"
      by (simp add: filter_empty_conv)
    with cnt have "length (filter (\<lambda>c. c = 59) t) = 1"
      by (cases "filter (\<lambda>c. c = 59) t") auto
    with fin have "test_semi_end t" by simp
    then show "last t = 59"
      unfolding t_def stripped_def by (rule semi_end_last)
  qed
  moreover have "contains_word (str ''from'') t"
    using frm test_words_contains [OF keywords_are_words(1), of t] by simp
  moreover have "\<forall>kw\<in>set forbidden. \<not> contains_word kw t"
    using forb test_words_contains [OF keywords_are_words(2), of t] by simp
  ultimately show ?thesis
    using v sel cnt test_select_starts [of t] by (simp add: t_def)
qed

lemma sample_query_safe: "isSafeSelectQuery (JStr (str ''SELECT * FROM t; -- comment''))"
  by (simp add: str_def stripped_def js_trim_def is_ws_def starts_def test_select_def
      kw_then_boundary_def boundary_def is_word_def lower_cu_def forbidden_def)

theorem safe_select_accepted_witness:
  "isSafeSelectQuery (JStr (str ''SELECT * FROM t; -- comment''))
   \<and> starts_with_keyword (str ''select'') (stripped (str ''SELECT * FROM t; -- comment''))
   \<and> contains_word (str ''from'') (stripped (str ''SELECT * FROM t; -- comment''))
   \<and> \<not> contains_word (str ''drop'') (stripped (str ''SELECT * FROM t; -- comment''))
   \<and> last (stripped (str ''SELECT * FROM t; -- comment'')) = 59"
proof -
  have semi: "59 \<in> set (stripped (str ''SELECT * FROM t; -- comment''))"
    by (simp add: str_def stripped_def js_trim_def is_ws_def starts_def)
  have drop: "str ''drop'' \<in> set forbidden"
    by (simp add: forbidden_def)
  from safe_select_accepted [OF sample_query_safe] semi drop show ?thesis
    using sample_query_safe by auto
qed

section \<open>SQL gateway: results\<close>

lemma str_eq_Nil: "(str s = []) = (s = [])"
  by (simp add: str_def)

lemma loopback_literal:
  "str ''127.0.0.1'' \<noteq> []"
  "js_trim (str ''127.0.0.1'') = str ''127.0.0.1''"
  by (simp_all add: str_def js_trim_def is_ws_def)

lemma normalize_host_nonempty: "normalize_host h \<noteq> []"
  by (simp add: normalize_host_def Let_def loopback_literal)

lemma normalize_host_default: "\<not> truthy h \<Longrightarrow> normalize_host h = str ''127.0.0.1''"
  by (simp add: normalize_host_def Let_def loopback_literal)

lemma normalize_host_loopback:
  "js_trim s = [] \<or> toLowerCase (js_trim s) = str ''localhost'' \<or> js_trim s = str ''::1''
     \<Longrightarrow> normalize_host (JStr s) = str ''127.0.0.1''"
  by (auto simp: normalize_host_def Let_def loopback_literal)

lemma incomplete_message_distinct:
  "str ''Incomplete DB configuration (host, port, user required)'' \<noteq> str ''Missing query or dbConfig''"
  "str ''Incomplete DB configuration (host, port, user required)''
     \<noteq> str ''Only single-statement SELECT queries are allowed.''"
  by (simp_all add: str_def)

text \<open>
  C6.  When the reachability probe of a request fails (error or timeout, with diagnostic
  \<open>m\<close>), the request is answered with the 502 "Cannot reach host:port" response that
  carries \<open>m\<close>, and no database connection is opened.  Whenever a database effect occurs
  at all, a successful probe is the first effect of the request.
\<close>

theorem probe_before_database:
  "(dbConfig body = Some cfg \<and> truthy (query body) \<and> isSafeSelectQuery (query body)
      \<and> truthy (port cfg) \<and> truthy (user cfg)
      \<and> net_connect w (normalize_host (host cfg)) (port cfg) = Some m
    \<longrightarrow> execute_sql w body
        = [Probe (normalize_host (host cfg)) (port cfg),
           Respond (Failure 502
             (str ''Cannot reach '' @ normalize_host (host cfg) @ str '':'' @ js_toString (port cfg)
              @ str ''. Ensure SSH tunnel is connected for the selected environment and the local port is open. (''
              @ m @ str '')''))])
   \<and> (dbConfig body = Some cfg \<and> net_connect w (normalize_host (host cfg)) (port cfg) = Some m
    \<longrightarrow> \<not> list_ex is_db_effect (execute_sql w body))
   \<and> (list_ex is_db_effect (execute_sql w body)
    \<longrightarrow> (\<exists>h p rest. execute_sql w body = Probe h p # rest \<and> net_connect w h p = None))"
  by (auto simp: execute_sql_def Let_def normalize_host_nonempty
      split: option.splits sum.splits)

theorem probe_before_database_witness:
  "execute_sql tunnel_down sample_body
     = [Probe (str ''127.0.0.1'') (JNum 4085),
        Respond (Failure 502
          (str ''Cannot reach '' @ str ''127.0.0.1'' @ str '':'' @ str ''4085''
           @ str ''. Ensure SSH tunnel is connected for the selected environment and the local port is open. (''
           @ str ''connect ECONNREFUSED 127.0.0.1:4085'' @ str '')''))]
   \<and> \<not> list_ex is_db_effect (execute_sql tunnel_down sample_body)
   \<and> execute_sql tunnel_up sample_body
     = [Probe (str ''127.0.0.1'') (JNum 4085),
        CreateConnection (str ''127.0.0.1'') (JNum 4085) (JStr (str ''root'')) JUndefined
          (JStr (str ''crs'')),
        Execute (str ''SELECT * FROM t; -- comment''),
        End,
        Respond (QuerySuccess [[JNum 1]])]"
proof -
  have h: "normalize_host (JStr (str ''localhost'')) = str ''127.0.0.1''"
    by (rule normalize_host_loopback) (simp add: str_def js_trim_def is_ws_def toLowerCase_def lower_cu_def)
  have p: "js_toString (JNum 4085) = str ''4085''"
    by (simp add: dec_int_def dec_nat.simps str_def)
  have up: "execute_sql tunnel_up sample_body
     = [Probe (str ''127.0.0.1'') (JNum 4085),
        CreateConnection (str ''127.0.0.1'') (JNum 4085) (JStr (str ''root'')) JUndefined
          (JStr (str ''crs'')),
        Execute (str ''SELECT * FROM t; -- comment''),
        End,
        Respond (QuerySuccess [[JNum 1]])]"
    using sample_query_safe
    by (simp add: execute_sql_def sample_body_def sample_config_def tunnel_up_def reachable_def
        or_undefined_def Let_def h str_eq_Nil del: isSafeSelectQuery.simps)
  show ?thesis
    using probe_before_database [where body = sample_body and cfg = sample_config and w = tunnel_down
        and m = "str ''connect ECONNREFUSED 127.0.0.1:4085''"]
      probe_before_database [where body = sample_body and w = tunnel_up]
      sample_query_safe up
    by (simp add: sample_body_def sample_config_def tunnel_down_def refused_def h p str_eq_Nil
        del: isSafeSelectQuery.simps js_toString.simps)
qed

text \<open>
  C10.  The host after normalisation is never empty (an absent, null or empty host, a
  blank one, \<open>localhost\<close> in any case and \<open>::1\<close> all become \<open>127.0.0.1\<close>), so for a
  request that reaches the check, the "Incomplete DB configuration" response is sent if
  and only if the port or the user is missing (absent, null or otherwise falsy, which is
  what \<open>!dbPort\<close> and \<open>!user\<close> test); no other request gets that response.
\<close>

theorem host_branch_unreachable:
  "normalize_host h \<noteq> [] \<and> truthy (JStr (normalize_host h))
   \<and> (\<not> truthy h \<longrightarrow> normalize_host h = str ''127.0.0.1'')
   \<and> (js_trim s = [] \<or> toLowerCase (js_trim s) = str ''localhost'' \<or> js_trim s = str ''::1''
        \<longrightarrow> normalize_host (JStr s) = str ''127.0.0.1'')
   \<and> (dbConfig body = Some cfg \<and> truthy (query body) \<and> isSafeSelectQuery (query body)
        \<longrightarrow> (Respond (Failure 400 (str ''Incomplete DB configuration (host, port, user required)''))
               \<in> set (execute_sql w body))
            = (\<not> truthy (port cfg) \<or> \<not> truthy (user cfg)))
   \<and> (Respond (Failure 400 (str ''Incomplete DB configuration (host, port, user required)''))
         \<in> set (execute_sql w body)
        \<longrightarrow> (\<exists>cfg. dbConfig body = Some cfg \<and> truthy (query body) \<and> isSafeSelectQuery (query body)))"
proof -
  have a: "(Respond (Failure 400 (str ''Incomplete DB configuration (host, port, user required)''))
               \<in> set (execute_sql w body))
            = (\<not> truthy (port cfg) \<or> \<not> truthy (user cfg))"
    if "dbConfig body = Some cfg" "truthy (query body)" "isSafeSelectQuery (query body)"
    using that
    by (auto simp: execute_sql_def Let_def normalize_host_nonempty split: option.splits sum.splits)
  have b: "\<exists>cfg. dbConfig body = Some cfg \<and> truthy (query body) \<and> isSafeSelectQuery (query body)"
    if "Respond (Failure 400 (str ''Incomplete DB configuration (host, port, user required)''))
         \<in> set (execute_sql w body)"
    using that
    by (auto simp: execute_sql_def Let_def incomplete_message_distinct split: option.splits if_splits)
  from a b show ?thesis
    using normalize_host_nonempty [of h] normalize_host_default [of h] normalize_host_loopback [of s]
    by auto
qed

theorem host_branch_unreachable_witness:
  "execute_sql tunnel_down portless_body
     = [Respond (Failure 400 (str ''Incomplete DB configuration (host, port, user required)''))]
   \<and> normalize_host (JStr (str ''  LocalHost '')) = str ''127.0.0.1''
   \<and> normalize_host JNull = str ''127.0.0.1''"
proof -
  have t: "toLowerCase (js_trim (str ''  LocalHost '')) = str ''localhost''"
    by (simp add: str_def js_trim_def is_ws_def toLowerCase_def lower_cu_def)
  have e: "execute_sql tunnel_down portless_body
     = [Respond (Failure 400 (str ''Incomplete DB configuration (host, port, user required)''))]"
    using sample_query_safe
    by (simp add: execute_sql_def portless_body_def sample_config_def Let_def str_eq_Nil
        del: isSafeSelectQuery.simps)
  show ?thesis
    using host_branch_unreachable [where h = JNull and s = "str ''  LocalHost ''"
        and body = portless_body and cfg = "sample_config\<lparr>port := JUndefined\<rparr>" and w = tunnel_down]
      t e sample_query_safe
    by (simp add: portless_body_def sample_config_def str_eq_Nil del: isSafeSelectQuery.simps)
qed

end
